theory Spec2Isabelle
  imports Complex_Main
begin

section \<open>Python strings\<close>

text \<open>
  A Python \<open>str\<close> is modelled as a \<open>string\<close>; a \<open>char\<close> stands for the code point of
  the same number, so the model covers text in the range U+0000 .. U+00FF.
\<close>

definition py_isdigit_char :: \<open>char \<Rightarrow> bool\<close> where
  \<comment> \<open>the characters below U+0100 on which \<open>str.isdigit\<close> holds: 0-9 and the
      superscripts two, three and one\<close>
  \<open>py_isdigit_char c \<longleftrightarrow> c \<in> set ''0123456789'' \<or> c \<in> {CHR 0xB2, CHR 0xB3, CHR 0xB9}\<close>

definition py_isdigit :: \<open>string \<Rightarrow> bool\<close> where
  \<comment> \<open>\<open>s.isdigit()\<close>: false on the empty string\<close>
  \<open>py_isdigit s \<longleftrightarrow> s \<noteq> [] \<and> list_all py_isdigit_char s\<close>

definition py_remove_char :: \<open>string \<Rightarrow> char \<Rightarrow> string\<close> where
  \<comment> \<open>\<open>s.replace(c, '')\<close> for a one-character \<open>c\<close>\<close>
  \<open>py_remove_char s c = filter (\<lambda>x. x \<noteq> c) s\<close>

definition py_startswith :: \<open>string \<Rightarrow> string \<Rightarrow> bool\<close> where
  \<open>py_startswith s p \<longleftrightarrow> take (length p) s = p\<close>

fun py_join :: \<open>string \<Rightarrow> string list \<Rightarrow> string\<close> where
  \<open>py_join sep [] = []\<close>
| \<open>py_join sep [x] = x\<close>
| \<open>py_join sep (x # y # ys) = x @ sep @ py_join sep (y # ys)\<close>

definition py_or_empty :: \<open>string option \<Rightarrow> string\<close> where
  \<comment> \<open>\<open>x or ""\<close> for an \<open>Optional[str]\<close>\<close>
  \<open>py_or_empty x = (case x of None \<Rightarrow> [] | Some s \<Rightarrow> s)\<close>

definition py_format_opt :: \<open>string option \<Rightarrow> string\<close> where
  \<comment> \<open>an \<open>Optional[str]\<close> inside an f-string\<close>
  \<open>py_format_opt x = (case x of None \<Rightarrow> ''None'' | Some s \<Rightarrow> s)\<close>

definition py_truthy :: \<open>string option \<Rightarrow> bool\<close> where
  \<comment> \<open>truth value of an \<open>Optional[str]\<close>: \<open>None\<close> and \<open>""\<close> are false\<close>
  \<open>py_truthy x \<longleftrightarrow> (case x of None \<Rightarrow> False | Some s \<Rightarrow> s \<noteq> [])\<close>

definition strips_to_digits :: \<open>string \<Rightarrow> bool\<close> where
  \<comment> \<open>the test \<open>val.replace('.', '').replace('-', '').isdigit()\<close>, written out three
      times in models.py\<close>
  \<open>strips_to_digits val \<longleftrightarrow>
     py_isdigit (py_remove_char (py_remove_char val (CHR ''.'')) (CHR ''-''))\<close>

definition dquoted :: \<open>string \<Rightarrow> string\<close> where
  \<comment> \<open>the f-string \<open>'"{val}"'\<close>\<close>
  \<open>dquoted val = ''"'' @ val @ ''"''\<close>


section \<open>The rule model (models.py)\<close>

datatype Comparator =
    EQUALS | NOT_EQUALS | GREATER_THAN | GREATER_THAN_OR_EQUAL | LESS_THAN
  | LESS_THAN_OR_EQUAL | IS_TRUE | IS_FALSE | IS_BLANK | IS_NOT_BLANK | CONTAINS
  | STARTS_WITH | ENDS_WITH | IS_IN | IS_NOT_IN

fun Comparator_value :: \<open>Comparator \<Rightarrow> string\<close> where
  \<open>Comparator_value EQUALS = ''is equal to''\<close>
| \<open>Comparator_value NOT_EQUALS = ''is not equal to''\<close>
| \<open>Comparator_value GREATER_THAN = ''is greater than''\<close>
| \<open>Comparator_value GREATER_THAN_OR_EQUAL = ''is greater than or equal to''\<close>
| \<open>Comparator_value LESS_THAN = ''is less than''\<close>
| \<open>Comparator_value LESS_THAN_OR_EQUAL = ''is less than or equal to''\<close>
| \<open>Comparator_value IS_TRUE = ''is true''\<close>
| \<open>Comparator_value IS_FALSE = ''is false''\<close>
| \<open>Comparator_value IS_BLANK = ''is blank''\<close>
| \<open>Comparator_value IS_NOT_BLANK = ''is not blank''\<close>
| \<open>Comparator_value CONTAINS = ''contains''\<close>
| \<open>Comparator_value STARTS_WITH = ''starts with''\<close>
| \<open>Comparator_value ENDS_WITH = ''ends with''\<close>
| \<open>Comparator_value IS_IN = ''is in''\<close>
| \<open>Comparator_value IS_NOT_IN = ''is not in''\<close>

text \<open>
  The members of \<open>PegaFunction\<close> carry the prefix \<open>PF_\<close>: several of them share their
  name with a member of \<open>Comparator\<close>.
\<close>

datatype PegaFunction =
    PF_EQUALS_IGNORE_CASE | PF_NOT_EQUALS_IGNORE_CASE | PF_CONTAINS | PF_STARTS_WITH
  | PF_ENDS_WITH | PF_GREATER_THAN | PF_GREATER_THAN_OR_EQUAL | PF_LESS_THAN
  | PF_LESS_THAN_OR_EQUAL | PF_TRIM | PF_IS_TRUE | PF_IS_FALSE | PF_IS_BLANK
  | PF_IS_NOT_BLANK | PF_CALL_WHEN | PF_IS_IN_PAGE_LIST

fun PegaFunction_value :: \<open>PegaFunction \<Rightarrow> string\<close> where
  \<open>PegaFunction_value PF_EQUALS_IGNORE_CASE = ''@equalsIgnoreCase''\<close>
| \<open>PegaFunction_value PF_NOT_EQUALS_IGNORE_CASE = ''@notEqualsIgnoreCase''\<close>
| \<open>PegaFunction_value PF_CONTAINS = ''@contains''\<close>
| \<open>PegaFunction_value PF_STARTS_WITH = ''@startsWith''\<close>
| \<open>PegaFunction_value PF_ENDS_WITH = ''@endsWith''\<close>
| \<open>PegaFunction_value PF_GREATER_THAN = ''@greaterThan''\<close>
| \<open>PegaFunction_value PF_GREATER_THAN_OR_EQUAL = ''@greaterThanOrEqual''\<close>
| \<open>PegaFunction_value PF_LESS_THAN = ''@lessThan''\<close>
| \<open>PegaFunction_value PF_LESS_THAN_OR_EQUAL = ''@lessThanOrEqual''\<close>
| \<open>PegaFunction_value PF_TRIM = ''@trim''\<close>
| \<open>PegaFunction_value PF_IS_TRUE = ''@isTrue''\<close>
| \<open>PegaFunction_value PF_IS_FALSE = ''@isFalse''\<close>
| \<open>PegaFunction_value PF_IS_BLANK = ''@isBlank''\<close>
| \<open>PegaFunction_value PF_IS_NOT_BLANK = ''@isNotBlank''\<close>
| \<open>PegaFunction_value PF_CALL_WHEN = ''@Utilities.callWhen''\<close>
| \<open>PegaFunction_value PF_IS_IN_PAGE_LIST = ''@IsInPageListWhen''\<close>

datatype LogicalOperator = AND | OR

datatype ConditionType = PROPERTY_COMPARISON | RULE_REFERENCE | FUNCTION_CALL

record Condition =
  condition_type :: ConditionType
  property_reference :: \<open>string option\<close>
  comparator :: \<open>Comparator option\<close>
  pega_function :: \<open>PegaFunction option\<close>
  compare_value :: \<open>string option\<close>
  apply_trim :: bool
  compare_value_is_property :: bool
  referenced_rule :: \<open>string option\<close>
  rule_evaluates_to :: bool

record ConditionGroup =
  conditions :: \<open>Condition list\<close>
  operator :: LogicalOperator

record WhenRule =
  rule_name :: string
  applies_to :: string
  description :: string
  condition_groups :: \<open>ConditionGroup list\<close>
  group_operator :: LogicalOperator
  campaign_id :: \<open>string option\<close>


section \<open>Rendering a condition\<close>

text \<open>
  \<open>_build_function_expr\<close>. Its only caller has checked that \<open>cond.pega_function\<close> is
  set; \<open>func\<close> is that value.
\<close>

definition build_function_expr :: \<open>Condition \<Rightarrow> PegaFunction \<Rightarrow> string\<close> where
  \<open>build_function_expr cond func =
    (let prop = py_or_empty (property_reference cond);
         prop = (if apply_trim cond \<and>
                    func \<notin> {PF_GREATER_THAN, PF_LESS_THAN,
                             PF_GREATER_THAN_OR_EQUAL, PF_LESS_THAN_OR_EQUAL}
                 then ''@trim('' @ prop @ '')'' else prop)
     in if func \<in> {PF_IS_TRUE, PF_IS_FALSE, PF_IS_BLANK, PF_IS_NOT_BLANK}
        then PegaFunction_value func @ ''('' @ prop @ '')''
        else
          let val = py_or_empty (compare_value cond);
              val = (if \<not> compare_value_is_property cond \<and> \<not> py_startswith val ''"''
                     then (if \<not> strips_to_digits val then dquoted val else val)
                     else val)
          in PegaFunction_value func @ ''('' @ prop @ '', '' @ val @ '')'')\<close>

fun func_map :: \<open>Comparator \<Rightarrow> PegaFunction option\<close> where
  \<open>func_map EQUALS = Some PF_EQUALS_IGNORE_CASE\<close>
| \<open>func_map NOT_EQUALS = Some PF_NOT_EQUALS_IGNORE_CASE\<close>
| \<open>func_map GREATER_THAN = Some PF_GREATER_THAN\<close>
| \<open>func_map GREATER_THAN_OR_EQUAL = Some PF_GREATER_THAN_OR_EQUAL\<close>
| \<open>func_map LESS_THAN = Some PF_LESS_THAN\<close>
| \<open>func_map LESS_THAN_OR_EQUAL = Some PF_LESS_THAN_OR_EQUAL\<close>
| \<open>func_map CONTAINS = Some PF_CONTAINS\<close>
| \<open>func_map STARTS_WITH = Some PF_STARTS_WITH\<close>
| \<open>func_map ENDS_WITH = Some PF_ENDS_WITH\<close>
| \<open>func_map IS_TRUE = Some PF_IS_TRUE\<close>
| \<open>func_map IS_FALSE = Some PF_IS_FALSE\<close>
| \<open>func_map IS_BLANK = Some PF_IS_BLANK\<close>
| \<open>func_map IS_NOT_BLANK = Some PF_IS_NOT_BLANK\<close>
| \<open>func_map IS_IN = None\<close>
| \<open>func_map IS_NOT_IN = None\<close>

text \<open>\<open>_build_function_expr_from_comparator\<close>; \<open>func_map.get(None)\<close> is \<open>None\<close>.\<close>

definition build_function_expr_from_comparator :: \<open>Condition \<Rightarrow> string\<close> where
  \<open>build_function_expr_from_comparator cond =
    (let prop = py_or_empty (property_reference cond);
         comp = comparator cond;
         val = py_or_empty (compare_value cond)
     in case (case comp of None \<Rightarrow> None | Some k \<Rightarrow> func_map k) of
          None \<Rightarrow> ''('' @ prop @ '' == '' @ val @ '')''
        | Some func \<Rightarrow>
            let is_numeric = (comp \<in> {Some GREATER_THAN, Some LESS_THAN,
                                       Some GREATER_THAN_OR_EQUAL, Some LESS_THAN_OR_EQUAL});
                prop = (if apply_trim cond \<and> \<not> is_numeric
                        then ''@trim('' @ prop @ '')'' else prop)
            in if func \<in> {PF_IS_TRUE, PF_IS_FALSE, PF_IS_BLANK, PF_IS_NOT_BLANK}
               then PegaFunction_value func @ ''('' @ prop @ '')''
               else
                 let val = (if \<not> is_numeric \<and> \<not> py_startswith val ''"''
                            then (if \<not> strips_to_digits val then dquoted val else val)
                            else val)
                 in PegaFunction_value func @ ''('' @ prop @ '', '' @ val @ '')'')\<close>

text \<open>
  \<open>_condition_to_expr\<close>. \<open>use_pega_functions and cond.pega_function\<close> is the function
  when both hold; the members of both enumerations are non-empty strings, hence true.
\<close>

definition condition_to_expr :: \<open>Condition \<Rightarrow> bool \<Rightarrow> string\<close> where
  \<open>condition_to_expr cond use_pega_functions =
    (if condition_type cond = RULE_REFERENCE \<and> py_truthy (referenced_rule cond)
     then
       (let eval_str = (if rule_evaluates_to cond then ''true'' else ''false'')
        in ''{Rule '' @ py_format_opt (referenced_rule cond) @ '' evaluates to ''
             @ eval_str @ ''}'')
     else
       let prop = py_or_empty (property_reference cond)
       in case (if use_pega_functions then pega_function cond else None) of
            Some func \<Rightarrow> build_function_expr cond func
          | None \<Rightarrow>
              if use_pega_functions then build_function_expr_from_comparator cond
              else
                (case comparator cond of
                   Some k \<Rightarrow>
                     let comp = Comparator_value k
                     in if k \<in> {IS_TRUE, IS_FALSE, IS_BLANK, IS_NOT_BLANK}
                        then prop @ '' '' @ comp
                        else
                          let val =
                            (case compare_value cond of
                               None \<Rightarrow> ''None''
                             | Some v \<Rightarrow>
                                 if \<not> compare_value_is_property cond
                                 then (if \<not> py_startswith v ''"'' \<and> \<not> strips_to_digits v
                                       then dquoted v else v)
                                 else v)
                          in prop @ '' '' @ comp @ '' '' @ val
                 | None \<Rightarrow> prop))\<close>


section \<open>Rendering a rule: \<open>to_expression\<close>\<close>

text \<open>The two loops append to a list; the accumulator is that list.\<close>

fun render_conditions :: \<open>Condition list \<Rightarrow> bool \<Rightarrow> string list \<Rightarrow> string list\<close> where
  \<open>render_conditions [] use_pega_functions conditions_str = conditions_str\<close>
| \<open>render_conditions (cond # rest) use_pega_functions conditions_str =
     render_conditions rest use_pega_functions
       (conditions_str @ [condition_to_expr cond use_pega_functions])\<close>

text \<open>The body of the loop over the groups: the token of one group.\<close>

definition group_expression :: \<open>ConditionGroup \<Rightarrow> bool \<Rightarrow> string\<close> where
  \<open>group_expression grp use_pega_functions =
    (let conditions_str = render_conditions (conditions grp) use_pega_functions [];
         group_op = (if operator grp = AND then ''&&'' else ''||'')
     in if length conditions_str = 1 then hd conditions_str
        else ''('' @ py_join ('' '' @ group_op @ '' '') conditions_str @ '')'')\<close>

fun render_groups :: \<open>ConditionGroup list \<Rightarrow> bool \<Rightarrow> string list \<Rightarrow> string list\<close> where
  \<open>render_groups [] use_pega_functions group_expressions = group_expressions\<close>
| \<open>render_groups (grp # rest) use_pega_functions group_expressions =
     render_groups rest use_pega_functions
       (group_expressions @ [group_expression grp use_pega_functions])\<close>

definition to_expression :: \<open>WhenRule \<Rightarrow> bool \<Rightarrow> string\<close> where
  \<open>to_expression self use_pega_functions =
    (let op_symbol = (if group_operator self = AND then ''&&'' else ''||'');
         group_expressions = render_groups (condition_groups self) use_pega_functions []
     in if length group_expressions = 1 then hd group_expressions
        else py_join ('' '' @ op_symbol @ '' '') group_expressions)\<close>


section \<open>Python values\<close>

text \<open>
  The values \<open>json.loads\<close> returns and the dictionaries the tool layer builds. A
  dictionary is an association list in insertion order, its keys distinct; the payload of a
  float plays no part in the code modelled here.
\<close>

datatype pyval =
    PNone | PBool bool | PInt int | PFloat real | PStr string
  | PList \<open>pyval list\<close> | PDict \<open>(string \<times> pyval) list\<close>

definition py_of_opt :: \<open>string option \<Rightarrow> pyval\<close> where
  \<open>py_of_opt x = (case x of None \<Rightarrow> PNone | Some s \<Rightarrow> PStr s)\<close>

definition py_bool_lower :: \<open>bool \<Rightarrow> string\<close> where
  \<comment> \<open>\<open>str(b).lower()\<close>\<close>
  \<open>py_bool_lower b = (if b then ''true'' else ''false'')\<close>


section \<open>Rendering a rule: \<open>to_dict\<close>\<close>

text \<open>The dictionary literal appended for one condition of the group \<open>grp\<close>.\<close>

definition condition_record :: \<open>Condition \<Rightarrow> ConditionGroup \<Rightarrow> pyval\<close> where
  \<open>condition_record cond grp =
    (if condition_type cond = RULE_REFERENCE
     then PDict
       [(''pyConditionType'', PStr ''rule''),
        (''pyRuleName'', py_of_opt (referenced_rule cond)),
        (''pyEvaluatesTo'', PBool (rule_evaluates_to cond)),
        (''pyLogicalOperator'', PStr (if operator grp = AND then ''&&'' else ''||''))]
     else PDict
       [(''pyConditionType'', PStr ''property''),
        (''pyPropertyRef'', PStr (py_or_empty (property_reference cond))),
        (''pyComparator'',
           PStr (case comparator cond of Some k \<Rightarrow> Comparator_value k | None \<Rightarrow> [])),
        (''pyCompareValue'', PStr (py_or_empty (compare_value cond))),
        (''pyCompareValueIsProperty'', PBool (compare_value_is_property cond)),
        (''pyLogicalOperator'', PStr (if operator grp = AND then ''&&'' else ''||''))])\<close>

fun dict_conditions :: \<open>Condition list \<Rightarrow> ConditionGroup \<Rightarrow> pyval list \<Rightarrow> pyval list\<close> where
  \<open>dict_conditions [] grp conditions_list = conditions_list\<close>
| \<open>dict_conditions (cond # rest) grp conditions_list =
     dict_conditions rest grp (conditions_list @ [condition_record cond grp])\<close>

fun dict_groups :: \<open>ConditionGroup list \<Rightarrow> pyval list \<Rightarrow> pyval list\<close> where
  \<open>dict_groups [] conditions_list = conditions_list\<close>
| \<open>dict_groups (grp # rest) conditions_list =
     dict_groups rest (dict_conditions (conditions grp) grp conditions_list)\<close>

definition to_dict :: \<open>WhenRule \<Rightarrow> pyval\<close> where
  \<open>to_dict self =
    (let conditions_list = dict_groups (condition_groups self) []
     in PDict
       [(''pxObjClass'', PStr ''Rule-Obj-When''),
        (''pyClassName'', PStr (applies_to self)),
        (''pyRuleName'', PStr (rule_name self)),
        (''pyDescription'', PStr (description self)),
        (''pyCampaignId'', py_of_opt (campaign_id self)),
        (''pyConditions'', PList conditions_list)])\<close>


section \<open>Rendering a rule: \<open>to_pega_xml\<close>\<close>

definition nl :: string where
  \<open>nl = [CHR 0x0A]\<close>

definition condition_xml :: \<open>Condition \<Rightarrow> string\<close> where
  \<open>condition_xml cond =
    (if condition_type cond = RULE_REFERENCE
     then ''    <ruleReference>'' @ nl
        @ ''      <ruleName>'' @ py_format_opt (referenced_rule cond) @ ''</ruleName>'' @ nl
        @ ''      <evaluatesTo>'' @ py_bool_lower (rule_evaluates_to cond)
        @ ''</evaluatesTo>'' @ nl
        @ ''    </ruleReference>''
     else ''    <condition>'' @ nl
        @ ''      <propertyRef>'' @ py_or_empty (property_reference cond)
        @ ''</propertyRef>'' @ nl
        @ ''      <comparator>''
        @ (case comparator cond of Some k \<Rightarrow> Comparator_value k | None \<Rightarrow> [])
        @ ''</comparator>'' @ nl
        @ ''      <compareValue>'' @ py_or_empty (compare_value cond)
        @ ''</compareValue>'' @ nl
        @ ''      <compareValueIsProperty>''
        @ py_bool_lower (compare_value_is_property cond)
        @ ''</compareValueIsProperty>'' @ nl
        @ ''    </condition>'')\<close>

text \<open>
  \<open>cond_idx < len(group.conditions) - 1\<close> holds exactly when conditions remain after the
  current one, and likewise for the groups.
\<close>

fun xml_conditions :: \<open>Condition list \<Rightarrow> ConditionGroup \<Rightarrow> string list \<Rightarrow> string list\<close> where
  \<open>xml_conditions [] grp conditions_xml = conditions_xml\<close>
| \<open>xml_conditions (cond # rest) grp conditions_xml =
     (let conditions_xml = conditions_xml @ [condition_xml cond];
          conditions_xml =
            (if rest \<noteq> []
             then conditions_xml @
               [''    <operator>'' @ (if operator grp = AND then ''&&'' else ''||'')
                @ ''</operator>'']
             else conditions_xml)
      in xml_conditions rest grp conditions_xml)\<close>

fun xml_groups :: \<open>ConditionGroup list \<Rightarrow> WhenRule \<Rightarrow> string list \<Rightarrow> string list\<close> where
  \<open>xml_groups [] self conditions_xml = conditions_xml\<close>
| \<open>xml_groups (grp # rest) self conditions_xml =
     (let conditions_xml = xml_conditions (conditions grp) grp conditions_xml;
          conditions_xml =
            (if rest \<noteq> []
             then conditions_xml @
               [''    <groupOperator>'' @ (if group_operator self = AND then ''&&'' else ''||'')
                @ ''</groupOperator>'']
             else conditions_xml)
      in xml_groups rest self conditions_xml)\<close>

definition to_pega_xml :: \<open>WhenRule \<Rightarrow> string\<close> where
  \<open>to_pega_xml self =
    (let conditions_xml = xml_groups (condition_groups self) self []
     in ''<?xml version="1.0" encoding="UTF-8"?>'' @ nl
      @ ''<pega:WhenRule xmlns:pega="http://www.pega.com/rules">'' @ nl
      @ ''  <ruleName>'' @ rule_name self @ ''</ruleName>'' @ nl
      @ ''  <appliesTo>'' @ applies_to self @ ''</appliesTo>'' @ nl
      @ ''  <description>'' @ description self @ ''</description>'' @ nl
      @ ''  <campaignId>'' @ py_or_empty (campaign_id self) @ ''</campaignId>'' @ nl
      @ ''  <conditions>'' @ nl
      @ py_join nl conditions_xml @ nl
      @ ''  </conditions>'' @ nl
      @ ''</pega:WhenRule>'')\<close>


section \<open>The tool layer: \<open>create_when_rule\<close> (agent.py)\<close>

datatype py_error = AttributeError | TypeError | ValidationError

definition bind_result :: \<open>'e + 'a \<Rightarrow> ('a \<Rightarrow> 'e + 'b) \<Rightarrow> 'e + 'b\<close> where
  \<comment> \<open>an exception ends the computation\<close>
  \<open>bind_result m f = (case m of Inl e \<Rightarrow> Inl e | Inr x \<Rightarrow> f x)\<close>

definition py_get :: \<open>pyval \<Rightarrow> string \<Rightarrow> pyval \<Rightarrow> py_error + pyval\<close> where
  \<comment> \<open>\<open>obj.get(key, default)\<close>: only a dictionary has the method\<close>
  \<open>py_get obj key dflt =
    (case obj of
       PDict d \<Rightarrow> Inr (case map_of d key of None \<Rightarrow> dflt | Some v \<Rightarrow> v)
     | _ \<Rightarrow> Inl AttributeError)\<close>

definition py_iter :: \<open>pyval \<Rightarrow> py_error + pyval list\<close> where
  \<comment> \<open>the items a \<open>for\<close> loop visits: a list's elements, a string's characters, a
      dictionary's keys\<close>
  \<open>py_iter obj =
    (case obj of
       PList xs \<Rightarrow> Inr xs
     | PStr s \<Rightarrow> Inr (map (\<lambda>c. PStr [c]) s)
     | PDict d \<Rightarrow> Inr (map (\<lambda>kv. PStr (fst kv)) d)
     | _ \<Rightarrow> Inl TypeError)\<close>

fun py_in_str :: \<open>string \<Rightarrow> string \<Rightarrow> bool\<close> where
  \<comment> \<open>\<open>p in s\<close> on strings: \<open>p\<close> occurs in \<open>s\<close>\<close>
  \<open>py_in_str p [] = (p = [])\<close>
| \<open>py_in_str p (c # cs) = (py_startswith (c # cs) p \<or> py_in_str p cs)\<close>

definition py_contains :: \<open>string \<Rightarrow> pyval \<Rightarrow> py_error + bool\<close> where
  \<comment> \<open>\<open>key in obj\<close>\<close>
  \<open>py_contains key obj =
    (case obj of
       PDict d \<Rightarrow> Inr (key \<in> set (map fst d))
     | PStr s \<Rightarrow> Inr (py_in_str key s)
     | PList xs \<Rightarrow> Inr (PStr key \<in> set xs)
     | _ \<Rightarrow> Inl TypeError)\<close>

text \<open>
  \<open>Condition\<close> is a pydantic model: its constructor validates the value given for each
  field and raises \<open>ValidationError\<close> on one it does not accept. The validation is
  library code, taken as a parameter: what it makes of a value given for an
  \<open>Optional[str]\<close> field and for a \<open>bool\<close> field, \<open>None\<close> when it rejects the value.
\<close>

record field_validation =
  validate_optional_str :: \<open>pyval \<Rightarrow> string option option\<close>
  validate_bool :: \<open>pyval \<Rightarrow> bool option\<close>

text \<open>One instance: strict validation, which accepts a value of the field's own type only.\<close>

definition strict_validation :: field_validation where
  \<open>strict_validation =
    \<lparr>validate_optional_str =
       (\<lambda>v. case v of PNone \<Rightarrow> Some None | PStr s \<Rightarrow> Some (Some s) | _ \<Rightarrow> None),
     validate_bool = (\<lambda>v. case v of PBool b \<Rightarrow> Some b | _ \<Rightarrow> None)\<rparr>\<close>

definition as_optional_str :: \<open>field_validation \<Rightarrow> pyval \<Rightarrow> py_error + string option\<close> where
  \<open>as_optional_str V v =
    (case validate_optional_str V v of None \<Rightarrow> Inl ValidationError | Some s \<Rightarrow> Inr s)\<close>

definition as_bool :: \<open>field_validation \<Rightarrow> pyval \<Rightarrow> py_error + bool\<close> where
  \<open>as_bool V v = (case validate_bool V v of None \<Rightarrow> Inl ValidationError | Some b \<Rightarrow> Inr b)\<close>

text \<open>
  \<open>Condition(condition_type=ConditionType.RULE_REFERENCE, referenced_rule=...,
  rule_evaluates_to=...)\<close>; the other fields take their defaults.
\<close>

definition rule_reference_condition ::
  \<open>field_validation \<Rightarrow> pyval \<Rightarrow> pyval \<Rightarrow> py_error + Condition\<close> where
  \<open>rule_reference_condition V rule evaluates_to =
    bind_result (as_optional_str V rule) (\<lambda>r.
    bind_result (as_bool V evaluates_to) (\<lambda>e.
      Inr \<lparr>condition_type = RULE_REFERENCE, property_reference = None, comparator = None,
           pega_function = None, compare_value = None, apply_trim = True,
           compare_value_is_property = False, referenced_rule = r,
           rule_evaluates_to = e\<rparr>))\<close>

text \<open>
  \<open>Condition(condition_type=ConditionType.PROPERTY_COMPARISON, property_reference=...,
  comparator=..., compare_value=..., apply_trim=..., compare_value_is_property=...)\<close>.
\<close>

definition property_comparison_condition ::
  \<open>field_validation \<Rightarrow> pyval \<Rightarrow> Comparator \<Rightarrow> pyval \<Rightarrow> pyval \<Rightarrow> pyval
     \<Rightarrow> py_error + Condition\<close> where
  \<open>property_comparison_condition V prop cmp val trim is_property =
    bind_result (as_optional_str V prop) (\<lambda>p.
    bind_result (as_optional_str V val) (\<lambda>v.
    bind_result (as_bool V trim) (\<lambda>t.
    bind_result (as_bool V is_property) (\<lambda>ip.
      Inr \<lparr>condition_type = PROPERTY_COMPARISON, property_reference = p,
           comparator = Some cmp, pega_function = None, compare_value = v,
           apply_trim = t, compare_value_is_property = ip, referenced_rule = None,
           rule_evaluates_to = True\<rparr>))))\<close>

definition Comparator_members :: \<open>Comparator list\<close> where
  \<comment> \<open>the order in which \<open>for c in Comparator\<close> visits the members\<close>
  \<open>Comparator_members =
    [EQUALS, NOT_EQUALS, GREATER_THAN, GREATER_THAN_OR_EQUAL, LESS_THAN,
     LESS_THAN_OR_EQUAL, IS_TRUE, IS_FALSE, IS_BLANK, IS_NOT_BLANK, CONTAINS,
     STARTS_WITH, ENDS_WITH, IS_IN, IS_NOT_IN]\<close>

text \<open>
  The search for the member whose value equals \<open>comp_str\<close>, and the default when the
  search ends with \<open>comparator\<close> still \<open>None\<close>.
\<close>

definition find_comparator :: \<open>pyval \<Rightarrow> Comparator\<close> where
  \<open>find_comparator comp_str =
    (case find (\<lambda>c. PStr (Comparator_value c) = comp_str) Comparator_members of
       Some c \<Rightarrow> c
     | None \<Rightarrow> EQUALS)\<close>

text \<open>The body of the loop over a group's condition entries.\<close>

definition build_condition :: \<open>field_validation \<Rightarrow> pyval \<Rightarrow> py_error + Condition\<close> where
  \<open>build_condition V cond =
    bind_result (py_contains ''rule'' cond) (\<lambda>is_rule.
      if is_rule then
        bind_result (py_get cond ''rule'' PNone) (\<lambda>rule.
        bind_result (py_get cond ''evaluates_to'' (PBool True)) (\<lambda>evaluates_to.
          rule_reference_condition V rule evaluates_to))
      else
        bind_result (py_get cond ''comparator'' (PStr ''is equal to'')) (\<lambda>comp_str.
          let comparator' = find_comparator comp_str;
              apply_trim' = (comparator' \<notin> {GREATER_THAN, LESS_THAN,
                                           GREATER_THAN_OR_EQUAL, LESS_THAN_OR_EQUAL})
          in
        bind_result (py_get cond ''property'' (PStr [])) (\<lambda>prop.
        bind_result (py_get cond ''value'' PNone) (\<lambda>val.
        bind_result (py_get cond ''apply_trim'' (PBool apply_trim')) (\<lambda>trim.
        bind_result (py_get cond ''is_property'' (PBool False)) (\<lambda>is_property.
          property_comparison_condition V prop comparator' val trim is_property))))))\<close>

fun build_conditions ::
  \<open>field_validation \<Rightarrow> pyval list \<Rightarrow> Condition list \<Rightarrow> py_error + Condition list\<close> where
  \<open>build_conditions V [] conditions' = Inr conditions'\<close>
| \<open>build_conditions V (cond # rest) conditions' =
     bind_result (build_condition V cond) (\<lambda>c. build_conditions V rest (conditions' @ [c]))\<close>

text \<open>The body of the loop over the group entries.\<close>

definition build_group :: \<open>field_validation \<Rightarrow> pyval \<Rightarrow> py_error + ConditionGroup\<close> where
  \<open>build_group V group_data =
    bind_result (py_get group_data ''conditions'' (PList [])) (\<lambda>entries.
    bind_result (py_iter entries) (\<lambda>items.
    bind_result (build_conditions V items []) (\<lambda>conditions'.
    bind_result (py_get group_data ''operator'' (PStr ''AND'')) (\<lambda>op_str.
      Inr \<lparr>conditions = conditions',
           operator = (if op_str = PStr ''AND'' then AND else OR)\<rparr>))))\<close>

fun build_groups ::
  \<open>field_validation \<Rightarrow> pyval list \<Rightarrow> ConditionGroup list \<Rightarrow> py_error + ConditionGroup list\<close>
  where
  \<open>build_groups V [] condition_groups' = Inr condition_groups'\<close>
| \<open>build_groups V (group_data # rest) condition_groups' =
     bind_result (build_group V group_data) (\<lambda>g.
       build_groups V rest (condition_groups' @ [g]))\<close>

text \<open>
  \<open>create_when_rule\<close>; a prime marks a parameter or local variable whose name a field
  of the model has taken. \<open>json.loads\<close> is the standard library's decoder; the model takes
  its outcome on \<open>conditions_json\<close>: \<open>Inl msg\<close> when it raises \<open>JSONDecodeError\<close> with
  the message \<open>msg\<close>, \<open>Inr v\<close> when it returns the value \<open>v\<close>. The result is \<open>Inl\<close> of
  the exception that leaves \<open>create_when_rule\<close>, or \<open>Inr\<close> of the dictionary returned.
\<close>

definition create_when_rule ::
  \<open>field_validation \<Rightarrow> string \<Rightarrow> string \<Rightarrow> string \<Rightarrow> string + pyval \<Rightarrow> string option
     \<Rightarrow> py_error + pyval\<close> where
  \<open>create_when_rule V rule_name' applies_to' description' conditions_json campaign_id' =
    (case conditions_json of
       Inl e \<Rightarrow> Inr (PDict [(''error'', PStr (''Invalid JSON in conditions: '' @ e))])
     | Inr conditions_data \<Rightarrow>
         bind_result (py_get conditions_data ''groups'' (PList [])) (\<lambda>entries.
         bind_result (py_iter entries) (\<lambda>items.
         bind_result (build_groups V items []) (\<lambda>condition_groups'.
         bind_result (py_get conditions_data ''group_operator'' (PStr ''AND''))
           (\<lambda>group_op_str.
             let when_rule =
               \<lparr>rule_name = rule_name', applies_to = applies_to',
                description = description', condition_groups = condition_groups',
                group_operator = (if group_op_str = PStr ''AND'' then AND else OR),
                campaign_id = campaign_id'\<rparr>
             in Inr (PDict
               [(''status'', PStr ''success''),
                (''rule_name'', PStr (rule_name when_rule)),
                (''applies_to'', PStr (applies_to when_rule)),
                (''campaign_id'', py_of_opt (campaign_id when_rule)),
                (''expression'', PStr (to_expression when_rule True)),
                (''expression_simple'', PStr (to_expression when_rule False)),
                (''xml'', PStr (to_pega_xml when_rule)),
                (''api_payload'', to_dict when_rule)]))))))\<close>


section \<open>Example values\<close>

text \<open>\<open>Condition()\<close>: every field at its declared default.\<close>

definition Condition_defaults :: Condition where
  \<open>Condition_defaults =
    \<lparr>condition_type = PROPERTY_COMPARISON, property_reference = None, comparator = None,
     pega_function = None, compare_value = None, apply_trim = True,
     compare_value_is_property = False, referenced_rule = None, rule_evaluates_to = True\<rparr>\<close>

definition rule_ref :: \<open>string \<Rightarrow> Condition\<close> where
  \<open>rule_ref n = Condition_defaults\<lparr>condition_type := RULE_REFERENCE, referenced_rule := Some n\<rparr>\<close>

text \<open>Two groups of one rule reference each, combined with OR.\<close>

definition two_group_rule :: WhenRule where
  \<open>two_group_rule =
    \<lparr>rule_name = ''R'', applies_to = ''A'', description = ''D'',
     condition_groups =
       [\<lparr>conditions = [rule_ref ''X''], operator = AND\<rparr>,
        \<lparr>conditions = [rule_ref ''Y''], operator = AND\<rparr>],
     group_operator = OR, campaign_id = None\<rparr>\<close>

text \<open>One group of two rule references joined by AND.\<close>

definition one_group_rule :: WhenRule where
  \<open>one_group_rule =
    \<lparr>rule_name = ''R'', applies_to = ''A'', description = ''D'',
     condition_groups = [\<lparr>conditions = [rule_ref ''X'', rule_ref ''Y''], operator = AND\<rparr>],
     group_operator = AND, campaign_id = None\<rparr>\<close>



text \<open>Two groups with different operators, combined with AND.\<close>

definition mixed_rule :: WhenRule where
  \<open>mixed_rule =
    \<lparr>rule_name = ''R'', applies_to = ''A'', description = ''D'',
     condition_groups =
       [\<lparr>conditions = [rule_ref ''X'', rule_ref ''Y''], operator = OR\<rparr>,
        \<lparr>conditions = [rule_ref ''Z''], operator = AND\<rparr>],
     group_operator = AND, campaign_id = None\<rparr>\<close>


text \<open>
  A comparison with another property: \<open>Condition(property_reference="A",
  comparator=Comparator.EQUALS, compare_value="B", compare_value_is_property=True)\<close>.
\<close>

definition property_flagged_condition :: Condition where
  \<open>property_flagged_condition =
    Condition_defaults\<lparr>property_reference := Some ''A'', comparator := Some EQUALS,
      compare_value := Some ''B'', compare_value_is_property := True\<rparr>\<close>

text \<open>
  \<open>Condition(property_reference="A", comparator=Comparator.IS_IN, compare_value="B")\<close>.
\<close>

definition is_in_condition :: Condition where
  \<open>is_in_condition =
    Condition_defaults\<lparr>property_reference := Some ''A'', comparator := Some IS_IN,
      compare_value := Some ''B''\<rparr>\<close>

text \<open>
  \<open>Condition(property_reference="AGE", comparator=Comparator.GREATER_THAN,
  compare_value="abc")\<close>.
\<close>

definition greater_than_text_condition :: Condition where
  \<open>greater_than_text_condition =
    Condition_defaults\<lparr>property_reference := Some ''AGE'', comparator := Some GREATER_THAN,
      compare_value := Some ''abc''\<rparr>\<close>

text \<open>
  \<open>Condition(property_reference="NAME", comparator=Comparator.CONTAINS,
  compare_value="1-2")\<close>.
\<close>

definition contains_condition :: Condition where
  \<open>contains_condition =
    Condition_defaults\<lparr>property_reference := Some ''NAME'', comparator := Some CONTAINS,
      compare_value := Some ''1-2''\<rparr>\<close>

text \<open>
  \<open>Condition(property_reference="A", comparator=Comparator.IS_NOT_IN, compare_value="B")\<close>.
\<close>

definition is_not_in_condition :: Condition where
  \<open>is_not_in_condition =
    Condition_defaults\<lparr>property_reference := Some ''A'', comparator := Some IS_NOT_IN,
      compare_value := Some ''B''\<rparr>\<close>


text \<open>
  A condition entry with a comparator text that is no member's value:
  \<open>{"property": ".Status", "comparator": "equals", "value": "Pending"}\<close>.
\<close>

definition loose_entry :: \<open>(string \<times> pyval) list\<close> where
  \<open>loose_entry =
    [(''property'', PStr ''.Status''), (''comparator'', PStr ''equals''),
     (''value'', PStr ''Pending'')]\<close>


section \<open>The loops as maps\<close>

lemma render_conditions_eq:
  \<open>render_conditions cs b acc = acc @ map (\<lambda>c. condition_to_expr c b) cs\<close>
  by (induction cs arbitrary: acc) simp_all

lemma render_groups_eq:
  \<open>render_groups gs b acc = acc @ map (\<lambda>g. group_expression g b) gs\<close>
  by (induction gs arbitrary: acc) simp_all

lemma to_expression_eq:
  \<open>to_expression r b =
     (let toks = map (\<lambda>g. group_expression g b) (condition_groups r)
      in if length toks = 1 then hd toks
         else py_join ('' '' @ (if group_operator r = AND then ''&&'' else ''||'') @ '' '') toks)\<close>
  by (simp add: to_expression_def render_groups_eq Let_def)

lemma rule_ref_expr:
  \<open>condition_to_expr (rule_ref (x # xs)) b = ''{Rule '' @ (x # xs) @ '' evaluates to true}''\<close>
  by (simp add: condition_to_expr_def rule_ref_def Condition_defaults_def py_truthy_def
      py_format_opt_def)


section \<open>Properties of \<open>to_expression\<close>\<close>

text \<open>
  C2, as stated, fails: the join of two group tokens is returned as it is, without a
  parenthesis pair around it. The rule \<open>two_group_rule\<close> renders, in both dialects, to
  \<open>{Rule X evaluates to true} || {Rule Y evaluates to true}\<close> and not to that text in
  parentheses.
\<close>

theorem to_expression_top_level_parens_counterexample:
  \<open>2 \<le> length (condition_groups two_group_rule)
   \<and> to_expression two_group_rule True
       = ''{Rule X evaluates to true} || {Rule Y evaluates to true}''
   \<and> to_expression two_group_rule False
       = ''{Rule X evaluates to true} || {Rule Y evaluates to true}''
   \<and> to_expression two_group_rule True
       \<noteq> ''({Rule X evaluates to true} || {Rule Y evaluates to true})''
   \<and> to_expression two_group_rule False
       \<noteq> ''({Rule X evaluates to true} || {Rule Y evaluates to true})''\<close>
  by (simp add: to_expression_eq two_group_rule_def group_expression_def
      render_conditions_eq rule_ref_expr)

text \<open>
  C2, amended: for every rule with two or more groups, \<open>to_expression\<close> (in both
  dialects) is the group tokens joined with the rule-level operator symbol between
  spaces (\<open>&&\<close> for AND, \<open>||\<close> for OR), and no parentheses are added around the join; the
  expression of a rule with a single group is that group's token, with no parentheses
  added either.
\<close>

theorem to_expression_joins_groups:
  \<open>(2 \<le> length (condition_groups r) \<longrightarrow>
      to_expression r b =
        py_join ('' '' @ (if group_operator r = AND then ''&&'' else ''||'') @ '' '')
          (map (\<lambda>g. group_expression g b) (condition_groups r)))
   \<and> (condition_groups r = [g] \<longrightarrow> to_expression r b = group_expression g b)\<close>
  by (simp add: to_expression_eq)

theorem to_expression_joins_groups_witness:
  \<open>2 \<le> length (condition_groups two_group_rule)
   \<and> to_expression two_group_rule False
       = ''{Rule X evaluates to true} || {Rule Y evaluates to true}''
   \<and> condition_groups one_group_rule
       = [\<lparr>conditions = [rule_ref ''X'', rule_ref ''Y''], operator = AND\<rparr>]
   \<and> to_expression one_group_rule False
       = ''({Rule X evaluates to true} && {Rule Y evaluates to true})''\<close>
proof -
  have two: \<open>2 \<le> length (condition_groups two_group_rule)\<close>
    by (simp add: two_group_rule_def)
  have one: \<open>condition_groups one_group_rule
       = [\<lparr>conditions = [rule_ref ''X'', rule_ref ''Y''], operator = AND\<rparr>]\<close>
    by (simp add: one_group_rule_def)
  from two to_expression_joins_groups [of two_group_rule False]
  have \<open>to_expression two_group_rule False
       = ''{Rule X evaluates to true} || {Rule Y evaluates to true}''\<close>
    by (simp add: two_group_rule_def group_expression_def render_conditions_eq rule_ref_expr)
  moreover from one to_expression_joins_groups [of one_group_rule False]
  have \<open>to_expression one_group_rule False
       = ''({Rule X evaluates to true} && {Rule Y evaluates to true})''\<close>
    by (simp add: group_expression_def render_conditions_eq rule_ref_expr)
  ultimately show ?thesis using two one by simp
qed

text \<open>
  C7: a rule that consists of a single group with more than one condition and the group
  operator AND renders, in the function dialect, to the renderings of its conditions
  joined with \<open>&&\<close> between spaces, inside one parenthesis pair; and the token of a group
  with exactly one condition is that condition's rendering, with no parentheses added.
\<close>

theorem single_group_and_expression:
  \<open>(condition_groups r = [g] \<and> operator g = AND \<and> 1 < length (conditions g) \<longrightarrow>
      to_expression r True
        = ''('' @ py_join '' && '' (map (\<lambda>c. condition_to_expr c True) (conditions g)) @ '')'')
   \<and> (conditions g' = [c] \<longrightarrow> group_expression g' b = condition_to_expr c b)\<close>
  by (simp add: to_expression_eq group_expression_def render_conditions_eq)

theorem single_group_and_expression_witness:
  \<open>to_expression one_group_rule True
     = ''({Rule X evaluates to true} && {Rule Y evaluates to true})''
   \<and> group_expression \<lparr>conditions = [rule_ref ''X''], operator = OR\<rparr> True
     = ''{Rule X evaluates to true}''\<close>
proof -
  from single_group_and_expression
    [of one_group_rule \<open>\<lparr>conditions = [rule_ref ''X'', rule_ref ''Y''], operator = AND\<rparr>\<close>
        \<open>\<lparr>conditions = [rule_ref ''X''], operator = OR\<rparr>\<close> \<open>rule_ref ''X''\<close> True]
  show ?thesis
    by (simp add: one_group_rule_def rule_ref_expr)
qed



section \<open>Properties of \<open>to_dict\<close>\<close>

lemma dict_conditions_eq:
  \<open>dict_conditions cs g acc = acc @ map (\<lambda>c. condition_record c g) cs\<close>
  by (induction cs arbitrary: acc) simp_all

lemma dict_groups_eq:
  \<open>dict_groups gs acc
     = acc @ concat (map (\<lambda>g. map (\<lambda>c. condition_record c g) (conditions g)) gs)\<close>
  by (induction gs arbitrary: acc) (simp_all add: dict_conditions_eq)

lemma condition_record_operator:
  \<open>py_get (condition_record c g) ''pyLogicalOperator'' PNone
     = Inr (PStr (if operator g = AND then ''&&'' else ''||''))\<close>
  by (simp add: condition_record_def py_get_def)

lemma map_operator_concat:
  \<open>map (\<lambda>rec. py_get rec ''pyLogicalOperator'' PNone)
     (concat (map (\<lambda>g. map (\<lambda>c. condition_record c g) (conditions g)) gs))
   = concat (map (\<lambda>g. replicate (length (conditions g))
        (Inr (PStr (if operator g = AND then ''&&'' else ''||'')))) gs)\<close>
  by (induction gs) (simp_all add: condition_record_operator o_def map_replicate_const)

lemma length_concat_records:
  \<open>length (concat (map (\<lambda>g. map (\<lambda>c. condition_record c g) (conditions g)) gs))
    = sum_list (map (\<lambda>g. length (conditions g)) gs)\<close>
  by (induction gs) simp_all

lemma to_dict_conditions:
  \<open>py_get (to_dict r) ''pyConditions'' PNone
     = Inr (PList (concat (map (\<lambda>g. map (\<lambda>c. condition_record c g) (conditions g))
                  (condition_groups r))))\<close>
  by (simp add: to_dict_def py_get_def dict_groups_eq)

lemma to_dict_group_operator: \<open>to_dict (r\<lparr>group_operator := x\<rparr>) = to_dict r\<close>
  by (simp add: to_dict_def)

text \<open>
  C4: the list under \<open>pyConditions\<close> holds the record of every condition of every
  group, in order, one for each condition; the \<open>pyLogicalOperator\<close> of each record is
  the symbol of the operator of the group the condition is in; and the dictionary does
  not depend on the rule-level \<open>group_operator\<close> at all.
\<close>

theorem to_dict_record_per_condition:
  \<open>\<exists>recs. py_get (to_dict r) ''pyConditions'' PNone = Inr (PList recs)
     \<and> recs = concat (map (\<lambda>g. map (\<lambda>c. condition_record c g) (conditions g))
                  (condition_groups r))
     \<and> length recs = sum_list (map (\<lambda>g. length (conditions g)) (condition_groups r))
     \<and> map (\<lambda>rec. py_get rec ''pyLogicalOperator'' PNone) recs
       = concat (map (\<lambda>g. replicate (length (conditions g))
            (Inr (PStr (if operator g = AND then ''&&'' else ''||''))))
          (condition_groups r))
     \<and> to_dict (r\<lparr>group_operator := x\<rparr>) = to_dict r\<close>
  using to_dict_conditions [of r] map_operator_concat [of \<open>condition_groups r\<close>]
    length_concat_records [of \<open>condition_groups r\<close>] to_dict_group_operator [of x r]
  by blast

text \<open>
  On \<open>mixed_rule\<close>, whose groups are combined with AND: three records, the two of the
  OR group with \<open>||\<close>.
\<close>

theorem to_dict_record_per_condition_example:
  \<open>group_operator mixed_rule = AND
   \<and> (\<exists>recs. py_get (to_dict mixed_rule) ''pyConditions'' PNone = Inr (PList recs)
        \<and> length recs = 3
        \<and> map (\<lambda>rec. py_get rec ''pyLogicalOperator'' PNone) recs
            = [Inr (PStr ''||''), Inr (PStr ''||''), Inr (PStr ''&&'')])\<close>
proof -
  from to_dict_record_per_condition [of mixed_rule AND]
  obtain recs where
    r: \<open>py_get (to_dict mixed_rule) ''pyConditions'' PNone = Inr (PList recs)\<close>
    and l: \<open>length recs
        = sum_list (map (\<lambda>g. length (conditions g)) (condition_groups mixed_rule))\<close>
    and m: \<open>map (\<lambda>rec. py_get rec ''pyLogicalOperator'' PNone) recs
       = concat (map (\<lambda>g. replicate (length (conditions g))
            (Inr (PStr (if operator g = AND then ''&&'' else ''||''))))
          (condition_groups mixed_rule))\<close>
    by blast
  from l have l3: \<open>length recs = 3\<close> by (simp add: mixed_rule_def)
  from m have ops: \<open>map (\<lambda>rec. py_get rec ''pyLogicalOperator'' PNone) recs
            = [Inr (PStr ''||''), Inr (PStr ''||''), Inr (PStr ''&&'')]\<close>
    by (simp add: mixed_rule_def numeral_2_eq_2)
  have top: \<open>group_operator mixed_rule = AND\<close> by (simp add: mixed_rule_def)
  show ?thesis
  proof (intro conjI exI)
    show \<open>group_operator mixed_rule = AND\<close> by (rule top)
    show \<open>py_get (to_dict mixed_rule) ''pyConditions'' PNone = Inr (PList recs)\<close>
      by (rule r)
    show \<open>length recs = 3\<close> by (rule l3)
    show \<open>map (\<lambda>rec. py_get rec ''pyLogicalOperator'' PNone) recs
            = [Inr (PStr ''||''), Inr (PStr ''||''), Inr (PStr ''&&'')]\<close>
      by (rule ops)
  qed
qed

section \<open>Properties of the rendering of a condition\<close>

lemmas render_defs = condition_to_expr_def build_function_expr_def
  build_function_expr_from_comparator_def py_or_empty_def py_truthy_def py_format_opt_def
  py_startswith_def strips_to_digits_def py_isdigit_def py_remove_char_def dquoted_def
  py_isdigit_char_def Condition_defaults_def Let_def

text \<open>
  C5 fails on the code. \<open>property_flagged_condition\<close> has \<open>compare_value_is_property\<close>
  set and no explicit function, and \<open>_build_function_expr_from_comparator\<close> wraps its
  value in double quotes: the function never reads the flag. The two sibling paths pass
  the same value through: \<open>_build_function_expr\<close>, taken when \<open>pega_function\<close> is set,
  and the simple dialect.
\<close>

theorem property_value_quoted_from_comparator:
  \<open>compare_value_is_property property_flagged_condition
   \<and> condition_type property_flagged_condition = PROPERTY_COMPARISON
   \<and> condition_to_expr property_flagged_condition True = ''@equalsIgnoreCase(@trim(A), "B")''
   \<and> condition_to_expr
         (property_flagged_condition\<lparr>pega_function := Some PF_EQUALS_IGNORE_CASE\<rparr>) True
       = ''@equalsIgnoreCase(@trim(A), B)''
   \<and> condition_to_expr property_flagged_condition False = ''A is equal to B''\<close>
  by (simp add: property_flagged_condition_def render_defs)

text \<open>
  C9, as stated, fails on a property comparison with comparator \<open>IS_IN\<close> that also
  carries an explicit \<open>pega_function\<close>: \<open>_condition_to_expr\<close> hands it to
  \<open>_build_function_expr\<close>, which renders a function call.
\<close>

theorem is_in_explicit_function_counterexample:
  \<open>condition_type (is_in_condition\<lparr>pega_function := Some PF_CONTAINS\<rparr>) = PROPERTY_COMPARISON
   \<and> comparator (is_in_condition\<lparr>pega_function := Some PF_CONTAINS\<rparr>) = Some IS_IN
   \<and> condition_to_expr (is_in_condition\<lparr>pega_function := Some PF_CONTAINS\<rparr>) True
       = ''@contains(@trim(A), "B")''
   \<and> condition_to_expr (is_in_condition\<lparr>pega_function := Some PF_CONTAINS\<rparr>) True
       \<noteq> ''(A == B)''\<close>
  by (simp add: is_in_condition_def render_defs)

text \<open>
  C9, amended: \<open>_build_function_expr_from_comparator\<close> renders every condition whose
  comparator is \<open>IS_IN\<close> or \<open>IS_NOT_IN\<close> as \<open>(<property> == <value>)\<close>, the value
  passed through unquoted; and that is the function-dialect rendering of every property
  comparison with such a comparator and no explicit \<open>pega_function\<close>.
\<close>

theorem is_in_fallback:
  \<open>comparator c = Some IS_IN \<or> comparator c = Some IS_NOT_IN \<Longrightarrow>
     build_function_expr_from_comparator c
       = ''('' @ py_or_empty (property_reference c) @ '' == ''
           @ py_or_empty (compare_value c) @ '')''
     \<and> (condition_type c = PROPERTY_COMPARISON \<and> pega_function c = None \<longrightarrow>
          condition_to_expr c True
            = ''('' @ py_or_empty (property_reference c) @ '' == ''
                @ py_or_empty (compare_value c) @ '')'')\<close>
  by (auto simp add: condition_to_expr_def build_function_expr_from_comparator_def Let_def)

theorem is_in_fallback_witness:
  \<open>comparator is_in_condition = Some IS_IN
   \<and> condition_type is_in_condition = PROPERTY_COMPARISON
   \<and> pega_function is_in_condition = None
   \<and> condition_to_expr is_in_condition True = ''(A == B)''\<close>
proof -
  have k: \<open>comparator is_in_condition = Some IS_IN \<or> comparator is_in_condition = Some IS_NOT_IN\<close>
    by (simp add: is_in_condition_def)
  have t: \<open>condition_type is_in_condition = PROPERTY_COMPARISON \<and> pega_function is_in_condition = None\<close>
    by (simp add: is_in_condition_def Condition_defaults_def)
  from is_in_fallback [OF k] t
  have \<open>condition_to_expr is_in_condition True
            = ''('' @ py_or_empty (property_reference is_in_condition) @ '' == ''
                @ py_or_empty (compare_value is_in_condition) @ '')''\<close>
    by blast
  then have \<open>condition_to_expr is_in_condition True = ''(A == B)''\<close>
    by (simp add: is_in_condition_def py_or_empty_def)
  with t show ?thesis by (simp add: is_in_condition_def)
qed

lemma from_comparator_unary:
  \<open>comparator c = Some k \<Longrightarrow> k \<in> {IS_TRUE, IS_FALSE, IS_BLANK, IS_NOT_BLANK} \<Longrightarrow>
     func_map k = Some f \<Longrightarrow>
     build_function_expr_from_comparator c
       = PegaFunction_value f @ ''(''
         @ (if apply_trim c then ''@trim('' @ py_or_empty (property_reference c) @ '')''
            else py_or_empty (property_reference c)) @ '')''\<close>
  by (cases k) (auto simp add: build_function_expr_from_comparator_def Let_def)

lemma from_comparator_binary:
  \<open>comparator c = Some k \<Longrightarrow> k \<notin> {IS_TRUE, IS_FALSE, IS_BLANK, IS_NOT_BLANK} \<Longrightarrow>
     func_map k = Some f \<Longrightarrow>
     build_function_expr_from_comparator c
       = PegaFunction_value f @ ''(''
         @ (if apply_trim c \<and> k \<notin> {GREATER_THAN, LESS_THAN, GREATER_THAN_OR_EQUAL,
                                      LESS_THAN_OR_EQUAL}
            then ''@trim('' @ py_or_empty (property_reference c) @ '')''
            else py_or_empty (property_reference c))
         @ '', ''
         @ (if k \<notin> {GREATER_THAN, LESS_THAN, GREATER_THAN_OR_EQUAL, LESS_THAN_OR_EQUAL}
               \<and> \<not> py_startswith (py_or_empty (compare_value c)) ''"''
               \<and> \<not> strips_to_digits (py_or_empty (compare_value c))
            then dquoted (py_or_empty (compare_value c))
            else py_or_empty (compare_value c))
         @ '')''\<close>
  by (cases k) (auto simp add: build_function_expr_from_comparator_def Let_def)

lemma explicit_function_expr:
  \<open>build_function_expr c f
     = PegaFunction_value f @ ''(''
       @ (if apply_trim c \<and> f \<notin> {PF_GREATER_THAN, PF_LESS_THAN, PF_GREATER_THAN_OR_EQUAL,
                                    PF_LESS_THAN_OR_EQUAL}
          then ''@trim('' @ py_or_empty (property_reference c) @ '')''
          else py_or_empty (property_reference c))
       @ (if f \<in> {PF_IS_TRUE, PF_IS_FALSE, PF_IS_BLANK, PF_IS_NOT_BLANK} then '')''
          else '', ''
            @ (if \<not> compare_value_is_property c
                  \<and> \<not> py_startswith (py_or_empty (compare_value c)) ''"''
                  \<and> \<not> strips_to_digits (py_or_empty (compare_value c))
               then dquoted (py_or_empty (compare_value c))
               else py_or_empty (compare_value c))
            @ '')'')\<close>
  by (simp add: build_function_expr_def Let_def)

lemma function_dialect_dispatch:
  \<open>condition_type c = PROPERTY_COMPARISON \<Longrightarrow>
     condition_to_expr c True
       = (case pega_function c of Some f \<Rightarrow> build_function_expr c f
          | None \<Rightarrow> build_function_expr_from_comparator c)\<close>
  by (simp add: condition_to_expr_def split: option.splits)

lemma simple_dialect_binary:
  \<open>condition_type c = PROPERTY_COMPARISON \<Longrightarrow> comparator c = Some k \<Longrightarrow>
     k \<notin> {IS_TRUE, IS_FALSE, IS_BLANK, IS_NOT_BLANK} \<Longrightarrow> compare_value c = Some v \<Longrightarrow>
     condition_to_expr c False
       = py_or_empty (property_reference c) @ '' '' @ Comparator_value k @ '' ''
         @ (if \<not> compare_value_is_property c \<and> \<not> py_startswith v ''"''
               \<and> \<not> strips_to_digits v
            then dquoted v else v)\<close>
  by (simp add: condition_to_expr_def Let_def)

text \<open>
  C6, as stated, fails: \<open>IS_NOT_IN\<close> is not one of the four magnitude comparators,
  \<open>apply_trim\<close> is true, and the property is rendered without \<open>@trim\<close>, in the
  fallback placeholder.
\<close>

theorem trim_is_not_in_counterexample:
  \<open>condition_type is_not_in_condition = PROPERTY_COMPARISON
   \<and> apply_trim is_not_in_condition
   \<and> comparator is_not_in_condition = Some IS_NOT_IN
   \<and> IS_NOT_IN \<notin> {GREATER_THAN, GREATER_THAN_OR_EQUAL, LESS_THAN, LESS_THAN_OR_EQUAL}
   \<and> condition_to_expr is_not_in_condition True = ''(A == B)''\<close>
  by (simp add: is_not_in_condition_def render_defs)

text \<open>
  C6, amended. For a property comparison rendered in the function dialect: with no
  explicit \<open>pega_function\<close> and a comparator that is mapped to a function (every
  comparator but \<open>IS_IN\<close> and \<open>IS_NOT_IN\<close>), the property argument is
  \<open>@trim(<property>)\<close> when \<open>apply_trim\<close> is true and the comparator is not one of the
  four magnitude comparators, and the bare property under those four; with an explicit
  \<open>pega_function\<close> the same holds of the function in place of the comparator.
\<close>

theorem trim_wraps_property:
  assumes \<open>condition_type c = PROPERTY_COMPARISON\<close>
  shows \<open>(pega_function c = None \<and> comparator c = Some k \<and> func_map k = Some f \<longrightarrow>
            (apply_trim c
               \<and> k \<notin> {GREATER_THAN, GREATER_THAN_OR_EQUAL, LESS_THAN, LESS_THAN_OR_EQUAL} \<longrightarrow>
               (\<exists>rest. condition_to_expr c True
                    = PegaFunction_value f @ ''(@trim('' @ py_or_empty (property_reference c)
                      @ '')'' @ rest
                  \<and> (rest = '')'' \<or> (\<exists>v. rest = '', '' @ v @ '')''))))
          \<and> (k \<in> {GREATER_THAN, GREATER_THAN_OR_EQUAL, LESS_THAN, LESS_THAN_OR_EQUAL} \<longrightarrow>
               condition_to_expr c True
                 = PegaFunction_value f @ ''('' @ py_or_empty (property_reference c) @ '', ''
                   @ py_or_empty (compare_value c) @ '')''))
       \<and> (pega_function c = Some f' \<longrightarrow>
            (apply_trim c
               \<and> f' \<notin> {PF_GREATER_THAN, PF_GREATER_THAN_OR_EQUAL, PF_LESS_THAN,
                        PF_LESS_THAN_OR_EQUAL} \<longrightarrow>
               (\<exists>rest. condition_to_expr c True
                    = PegaFunction_value f' @ ''(@trim('' @ py_or_empty (property_reference c)
                      @ '')'' @ rest
                  \<and> (rest = '')'' \<or> (\<exists>v. rest = '', '' @ v @ '')''))))
          \<and> (f' \<in> {PF_GREATER_THAN, PF_GREATER_THAN_OR_EQUAL, PF_LESS_THAN,
                     PF_LESS_THAN_OR_EQUAL} \<longrightarrow>
               (\<exists>v. condition_to_expr c True
                 = PegaFunction_value f' @ ''('' @ py_or_empty (property_reference c) @ '', ''
                   @ v @ '')'')))\<close>
proof -
  have from_trim: \<open>\<exists>rest. condition_to_expr c True
        = PegaFunction_value f @ ''(@trim('' @ py_or_empty (property_reference c) @ '')'' @ rest
      \<and> (rest = '')'' \<or> (\<exists>v. rest = '', '' @ v @ '')''))\<close>
    if \<open>pega_function c = None\<close> \<open>comparator c = Some k\<close> \<open>func_map k = Some f\<close>
       \<open>apply_trim c\<close>
       \<open>k \<notin> {GREATER_THAN, GREATER_THAN_OR_EQUAL, LESS_THAN, LESS_THAN_OR_EQUAL}\<close>
  proof (cases \<open>k \<in> {IS_TRUE, IS_FALSE, IS_BLANK, IS_NOT_BLANK}\<close>)
    case True
    from from_comparator_unary [OF that(2) True that(3)] that(1,4) assms
    show ?thesis by (simp add: function_dialect_dispatch)
  next
    case False
    from from_comparator_binary [OF that(2) False that(3)] that(1,4,5) assms
    show ?thesis by (simp add: function_dialect_dispatch)
  qed
  have from_bare: \<open>condition_to_expr c True
        = PegaFunction_value f @ ''('' @ py_or_empty (property_reference c) @ '', ''
          @ py_or_empty (compare_value c) @ '')''\<close>
    if \<open>pega_function c = None\<close> \<open>comparator c = Some k\<close> \<open>func_map k = Some f\<close>
       \<open>k \<in> {GREATER_THAN, GREATER_THAN_OR_EQUAL, LESS_THAN, LESS_THAN_OR_EQUAL}\<close>
  proof -
    from that(4) have nu: \<open>k \<notin> {IS_TRUE, IS_FALSE, IS_BLANK, IS_NOT_BLANK}\<close> by auto
    from from_comparator_binary [OF that(2) nu that(3)] that(1,4) assms
    show ?thesis by (auto simp add: function_dialect_dispatch)
  qed
  have expl_trim: \<open>\<exists>rest. condition_to_expr c True
        = PegaFunction_value f' @ ''(@trim('' @ py_or_empty (property_reference c) @ '')'' @ rest
      \<and> (rest = '')'' \<or> (\<exists>v. rest = '', '' @ v @ '')''))\<close>
    if \<open>pega_function c = Some f'\<close> \<open>apply_trim c\<close>
       \<open>f' \<notin> {PF_GREATER_THAN, PF_GREATER_THAN_OR_EQUAL, PF_LESS_THAN, PF_LESS_THAN_OR_EQUAL}\<close>
    using that assms by (simp add: function_dialect_dispatch explicit_function_expr)
  have expl_bare: \<open>\<exists>v. condition_to_expr c True
        = PegaFunction_value f' @ ''('' @ py_or_empty (property_reference c) @ '', ''
          @ v @ '')''\<close>
    if \<open>pega_function c = Some f'\<close>
       \<open>f' \<in> {PF_GREATER_THAN, PF_GREATER_THAN_OR_EQUAL, PF_LESS_THAN, PF_LESS_THAN_OR_EQUAL}\<close>
    using that assms by (auto simp add: function_dialect_dispatch explicit_function_expr)
  from from_trim from_bare expl_trim expl_bare show ?thesis by blast
qed

theorem trim_wraps_property_witness:
  \<open>condition_type contains_condition = PROPERTY_COMPARISON
   \<and> apply_trim contains_condition
   \<and> (\<exists>rest. condition_to_expr contains_condition True = ''@contains(@trim(NAME)'' @ rest)
   \<and> apply_trim greater_than_text_condition
   \<and> condition_to_expr greater_than_text_condition True = ''@greaterThan(AGE, abc)''\<close>
proof -
  have t1: \<open>condition_type contains_condition = PROPERTY_COMPARISON\<close>
    and a1: \<open>apply_trim contains_condition\<close>
    and p1: \<open>pega_function contains_condition = None\<close>
    and k1: \<open>comparator contains_condition = Some CONTAINS\<close>
    and r1: \<open>py_or_empty (property_reference contains_condition) = ''NAME''\<close>
    by (simp_all add: contains_condition_def Condition_defaults_def py_or_empty_def)
  have t2: \<open>condition_type greater_than_text_condition = PROPERTY_COMPARISON\<close>
    and a2: \<open>apply_trim greater_than_text_condition\<close>
    and p2: \<open>pega_function greater_than_text_condition = None\<close>
    and k2: \<open>comparator greater_than_text_condition = Some GREATER_THAN\<close>
    and r2: \<open>py_or_empty (property_reference greater_than_text_condition) = ''AGE''\<close>
    and v2: \<open>py_or_empty (compare_value greater_than_text_condition) = ''abc''\<close>
    by (simp_all add: greater_than_text_condition_def Condition_defaults_def py_or_empty_def)
  from trim_wraps_property [OF t1, of CONTAINS PF_CONTAINS PF_CONTAINS] a1 p1 k1
  have \<open>\<exists>rest. condition_to_expr contains_condition True
      = PegaFunction_value PF_CONTAINS @ ''(@trim(''
        @ py_or_empty (property_reference contains_condition) @ '')'' @ rest\<close>
    by auto
  then have e1: \<open>\<exists>rest. condition_to_expr contains_condition True
      = ''@contains(@trim(NAME)'' @ rest\<close>
    by (simp add: r1)
  from trim_wraps_property [OF t2, of GREATER_THAN PF_GREATER_THAN PF_GREATER_THAN] p2 k2
  have \<open>condition_to_expr greater_than_text_condition True
      = PegaFunction_value PF_GREATER_THAN @ ''(''
        @ py_or_empty (property_reference greater_than_text_condition) @ '', ''
        @ py_or_empty (compare_value greater_than_text_condition) @ '')''\<close>
    by simp
  then have e2: \<open>condition_to_expr greater_than_text_condition True
      = ''@greaterThan(AGE, abc)''\<close>
    by (simp add: r2 v2)
  from t1 a1 e1 a2 e2 show ?thesis by blast
qed

lemma strips_to_digits_spec:
  \<open>strips_to_digits v \<longleftrightarrow>
     (let r = filter (\<lambda>x. x \<noteq> CHR ''.'' \<and> x \<noteq> CHR ''-'') v
      in r \<noteq> [] \<and> list_all py_isdigit_char r)\<close>
  by (simp add: strips_to_digits_def py_isdigit_def py_remove_char_def Let_def conj_commute)

lemma strips_to_digits_1_2: \<open>strips_to_digits ''1-2''\<close>
  by (simp add: strips_to_digits_def py_isdigit_def py_remove_char_def py_isdigit_char_def)

text \<open>
  C3, as stated, fails: under \<open>GREATER_THAN\<close> the function dialect leaves the value
  \<open>abc\<close> unquoted, although it is not numeric, does not start with a double quote and is
  not a property reference; the simple dialect quotes the same value.
\<close>

theorem greater_than_text_unquoted_counterexample:
  \<open>condition_type greater_than_text_condition = PROPERTY_COMPARISON
   \<and> compare_value greater_than_text_condition = Some ''abc''
   \<and> \<not> strips_to_digits ''abc''
   \<and> \<not> py_startswith ''abc'' ''"''
   \<and> \<not> compare_value_is_property greater_than_text_condition
   \<and> condition_to_expr greater_than_text_condition True = ''@greaterThan(AGE, abc)''
   \<and> condition_to_expr greater_than_text_condition False = ''AGE is greater than "abc"''\<close>
  by (simp add: greater_than_text_condition_def render_defs)

text \<open>
  C3, amended. A value is numeric when, after removing every \<open>.\<close> and \<open>-\<close>, the rest
  is non-empty and consists of digits only (\<open>str.isdigit\<close>); \<open>1-2\<close> is numeric. In the
  simple dialect, and in the function dialect with an explicit \<open>pega_function\<close>, the
  compare value of a binary comparison is wrapped in double quotes exactly when it is not
  flagged as a property reference, does not start with a double quote and is not numeric,
  and is rendered as it is otherwise. In the function dialect derived from the
  comparator, under a binary comparator that is mapped to a function (every one but
  \<open>IS_IN\<close> and \<open>IS_NOT_IN\<close>), a value that is not flagged as a property reference is
  wrapped exactly when the comparator is not one of the four magnitude comparators, the
  value does not start with a double quote and it is not numeric, and is rendered as it
  is otherwise; under \<open>IS_IN\<close> and \<open>IS_NOT_IN\<close>, which are mapped to no function, every
  value is rendered as it is, unquoted, in the placeholder \<open>(<property> == <value>)\<close>.
\<close>

theorem compare_value_quoting:
  assumes \<open>condition_type c = PROPERTY_COMPARISON\<close> and \<open>compare_value c = Some v\<close>
  shows \<open>(comparator c = Some k \<and> k \<notin> {IS_TRUE, IS_FALSE, IS_BLANK, IS_NOT_BLANK} \<longrightarrow>
            condition_to_expr c False
              = py_or_empty (property_reference c) @ '' '' @ Comparator_value k @ '' ''
                @ (if \<not> compare_value_is_property c \<and> \<not> py_startswith v ''"''
                      \<and> \<not> strips_to_digits v
                   then dquoted v else v))
       \<and> (pega_function c = Some f'
            \<and> f' \<notin> {PF_IS_TRUE, PF_IS_FALSE, PF_IS_BLANK, PF_IS_NOT_BLANK} \<longrightarrow>
            condition_to_expr c True
              = PegaFunction_value f' @ ''(''
                @ (if apply_trim c
                      \<and> f' \<notin> {PF_GREATER_THAN, PF_LESS_THAN, PF_GREATER_THAN_OR_EQUAL,
                               PF_LESS_THAN_OR_EQUAL}
                   then ''@trim('' @ py_or_empty (property_reference c) @ '')''
                   else py_or_empty (property_reference c))
                @ '', ''
                @ (if \<not> compare_value_is_property c \<and> \<not> py_startswith v ''"''
                      \<and> \<not> strips_to_digits v
                   then dquoted v else v)
                @ '')'')
       \<and> (pega_function c = None \<and> comparator c = Some k
            \<and> k \<notin> {IS_TRUE, IS_FALSE, IS_BLANK, IS_NOT_BLANK} \<and> func_map k = Some f
            \<and> \<not> compare_value_is_property c \<longrightarrow>
            condition_to_expr c True
              = PegaFunction_value f @ ''(''
                @ (if apply_trim c
                      \<and> k \<notin> {GREATER_THAN, LESS_THAN, GREATER_THAN_OR_EQUAL,
                              LESS_THAN_OR_EQUAL}
                   then ''@trim('' @ py_or_empty (property_reference c) @ '')''
                   else py_or_empty (property_reference c))
                @ '', ''
                @ (if k \<notin> {GREATER_THAN, LESS_THAN, GREATER_THAN_OR_EQUAL, LESS_THAN_OR_EQUAL}
                      \<and> \<not> py_startswith v ''"'' \<and> \<not> strips_to_digits v
                   then dquoted v else v)
                @ '')'')
       \<and> (pega_function c = None
            \<and> (comparator c = Some IS_IN \<or> comparator c = Some IS_NOT_IN) \<longrightarrow>
            condition_to_expr c True
              = ''('' @ py_or_empty (property_reference c) @ '' == '' @ v @ '')'')
       \<and> (strips_to_digits v \<longleftrightarrow>
            (let r = filter (\<lambda>x. x \<noteq> CHR ''.'' \<and> x \<noteq> CHR ''-'') v
             in r \<noteq> [] \<and> list_all py_isdigit_char r))
       \<and> strips_to_digits ''1-2''\<close>
proof -
  have v: \<open>py_or_empty (compare_value c) = v\<close>
    using assms(2) by (simp add: py_or_empty_def)
  have simple: \<open>condition_to_expr c False
      = py_or_empty (property_reference c) @ '' '' @ Comparator_value k @ '' ''
        @ (if \<not> compare_value_is_property c \<and> \<not> py_startswith v ''"''
              \<and> \<not> strips_to_digits v
           then dquoted v else v)\<close>
    if \<open>comparator c = Some k\<close> \<open>k \<notin> {IS_TRUE, IS_FALSE, IS_BLANK, IS_NOT_BLANK}\<close>
    by (rule simple_dialect_binary [OF assms(1) that assms(2)])
  have expl: \<open>condition_to_expr c True
      = PegaFunction_value f' @ ''(''
        @ (if apply_trim c
              \<and> f' \<notin> {PF_GREATER_THAN, PF_LESS_THAN, PF_GREATER_THAN_OR_EQUAL,
                       PF_LESS_THAN_OR_EQUAL}
           then ''@trim('' @ py_or_empty (property_reference c) @ '')''
           else py_or_empty (property_reference c))
        @ '', ''
        @ (if \<not> compare_value_is_property c \<and> \<not> py_startswith v ''"''
              \<and> \<not> strips_to_digits v
           then dquoted v else v)
        @ '')''\<close>
    if \<open>pega_function c = Some f'\<close>
       \<open>f' \<notin> {PF_IS_TRUE, PF_IS_FALSE, PF_IS_BLANK, PF_IS_NOT_BLANK}\<close>
    using that assms(1) v by (simp add: function_dialect_dispatch explicit_function_expr)
  have frm: \<open>condition_to_expr c True
      = PegaFunction_value f @ ''(''
        @ (if apply_trim c
              \<and> k \<notin> {GREATER_THAN, LESS_THAN, GREATER_THAN_OR_EQUAL, LESS_THAN_OR_EQUAL}
           then ''@trim('' @ py_or_empty (property_reference c) @ '')''
           else py_or_empty (property_reference c))
        @ '', ''
        @ (if k \<notin> {GREATER_THAN, LESS_THAN, GREATER_THAN_OR_EQUAL, LESS_THAN_OR_EQUAL}
              \<and> \<not> py_startswith v ''"'' \<and> \<not> strips_to_digits v
           then dquoted v else v)
        @ '')''\<close>
    if \<open>pega_function c = None\<close> \<open>comparator c = Some k\<close>
       \<open>k \<notin> {IS_TRUE, IS_FALSE, IS_BLANK, IS_NOT_BLANK}\<close> \<open>func_map k = Some f\<close>
    using from_comparator_binary [OF that(2) that(3) that(4)] that(1) assms(1)
    unfolding v by (simp only: function_dialect_dispatch option.case)
  have fallback: \<open>condition_to_expr c True
      = ''('' @ py_or_empty (property_reference c) @ '' == '' @ v @ '')''\<close>
    if \<open>pega_function c = None\<close>
       \<open>comparator c = Some IS_IN \<or> comparator c = Some IS_NOT_IN\<close>
    using that assms(1) v
    by (auto simp add: function_dialect_dispatch build_function_expr_from_comparator_def
        Let_def)
  from simple expl frm fallback strips_to_digits_spec [of v] strips_to_digits_1_2
  show ?thesis by blast
qed

theorem compare_value_quoting_witness:
  \<open>condition_type contains_condition = PROPERTY_COMPARISON
   \<and> compare_value contains_condition = Some ''1-2''
   \<and> condition_to_expr contains_condition False = ''NAME contains 1-2''
   \<and> condition_to_expr contains_condition True = ''@contains(@trim(NAME), 1-2)''
   \<and> condition_to_expr (contains_condition\<lparr>compare_value := Some ''x-2''\<rparr>) False
       = ''NAME contains "x-2"''
   \<and> condition_to_expr (is_in_condition\<lparr>compare_value := Some ''abc''\<rparr>) True
       = ''(A == abc)''\<close>
proof -
  let ?c = \<open>contains_condition\<close>
  let ?e = \<open>is_in_condition\<lparr>compare_value := Some ''abc''\<rparr>\<close>
  let ?d = \<open>contains_condition\<lparr>compare_value := Some ''x-2''\<rparr>\<close>
  have t: \<open>condition_type ?c = PROPERTY_COMPARISON\<close>
    and v: \<open>compare_value ?c = Some ''1-2''\<close>
    and k: \<open>comparator ?c = Some CONTAINS\<close>
    and p: \<open>pega_function ?c = None\<close>
    and a: \<open>apply_trim ?c\<close>
    and ip: \<open>\<not> compare_value_is_property ?c\<close>
    and r: \<open>py_or_empty (property_reference ?c) = ''NAME''\<close>
    by (simp_all add: contains_condition_def Condition_defaults_def py_or_empty_def)
  have td: \<open>condition_type ?d = PROPERTY_COMPARISON\<close>
    and vd: \<open>compare_value ?d = Some ''x-2''\<close>
    and kd: \<open>comparator ?d = Some CONTAINS\<close>
    and ipd: \<open>\<not> compare_value_is_property ?d\<close>
    and rd: \<open>py_or_empty (property_reference ?d) = ''NAME''\<close>
    by (simp_all add: contains_condition_def Condition_defaults_def py_or_empty_def)
  have n: \<open>strips_to_digits ''1-2''\<close> and nx: \<open>\<not> strips_to_digits ''x-2''\<close>
    and q: \<open>\<not> py_startswith ''x-2'' ''"''\<close>
    by (simp_all add: strips_to_digits_def py_isdigit_def py_remove_char_def
        py_isdigit_char_def py_startswith_def)
  note T = compare_value_quoting [OF t v, of CONTAINS PF_CONTAINS PF_CONTAINS]
  from T k have \<open>condition_to_expr ?c False
      = py_or_empty (property_reference ?c) @ '' '' @ Comparator_value CONTAINS @ '' ''
        @ (if \<not> compare_value_is_property ?c \<and> \<not> py_startswith ''1-2'' ''"''
              \<and> \<not> strips_to_digits ''1-2''
           then dquoted ''1-2'' else ''1-2'')\<close>
    by simp
  then have s1: \<open>condition_to_expr ?c False = ''NAME contains 1-2''\<close>
    by (simp add: r n)
  from T k p ip have \<open>condition_to_expr ?c True
      = PegaFunction_value PF_CONTAINS @ ''(''
        @ (if apply_trim ?c
              \<and> CONTAINS \<notin> {GREATER_THAN, LESS_THAN, GREATER_THAN_OR_EQUAL,
                             LESS_THAN_OR_EQUAL}
           then ''@trim('' @ py_or_empty (property_reference ?c) @ '')''
           else py_or_empty (property_reference ?c))
        @ '', ''
        @ (if CONTAINS \<notin> {GREATER_THAN, LESS_THAN, GREATER_THAN_OR_EQUAL,
                             LESS_THAN_OR_EQUAL}
              \<and> \<not> py_startswith ''1-2'' ''"'' \<and> \<not> strips_to_digits ''1-2''
           then dquoted ''1-2'' else ''1-2'')
        @ '')''\<close>
    by simp
  then have s2: \<open>condition_to_expr ?c True = ''@contains(@trim(NAME), 1-2)''\<close>
    by (simp add: r n a)
  from compare_value_quoting [OF td vd, of CONTAINS PF_CONTAINS PF_CONTAINS] kd
  have \<open>condition_to_expr ?d False
      = py_or_empty (property_reference ?d) @ '' '' @ Comparator_value CONTAINS @ '' ''
        @ (if \<not> compare_value_is_property ?d \<and> \<not> py_startswith ''x-2'' ''"''
              \<and> \<not> strips_to_digits ''x-2''
           then dquoted ''x-2'' else ''x-2'')\<close>
    by simp
  then have s3: \<open>condition_to_expr ?d False = ''NAME contains "x-2"''\<close>
    using ipd nx q by (simp add: r dquoted_def)
  have te: \<open>condition_type ?e = PROPERTY_COMPARISON\<close>
    and ve: \<open>compare_value ?e = Some ''abc''\<close>
    and ke: \<open>comparator ?e = Some IS_IN \<or> comparator ?e = Some IS_NOT_IN\<close>
    and pe: \<open>pega_function ?e = None\<close>
    and re: \<open>py_or_empty (property_reference is_in_condition) = ''A''\<close>
    by (simp_all add: is_in_condition_def Condition_defaults_def py_or_empty_def)
  from compare_value_quoting [OF te ve, of IS_IN PF_CONTAINS PF_CONTAINS] ke pe
  have \<open>condition_to_expr ?e True
      = ''('' @ py_or_empty (property_reference ?e) @ '' == '' @ ''abc'' @ '')''\<close>
    by blast
  then have s4: \<open>condition_to_expr ?e True = ''(A == abc)''\<close>
    by (simp add: re)
  from t v s1 s2 s3 s4 show ?thesis by blast
qed

section \<open>Properties of \<open>create_when_rule\<close>\<close>

lemma find_comparator_unknown:
  \<open>\<forall>k. x \<noteq> PStr (Comparator_value k) \<Longrightarrow> find_comparator x = EQUALS\<close>
proof -
  assume \<open>\<forall>k. x \<noteq> PStr (Comparator_value k)\<close>
  then have \<open>find (\<lambda>c. PStr (Comparator_value c) = x) Comparator_members = None\<close>
    by (auto simp add: find_None_iff)
  then show ?thesis by (simp add: find_comparator_def)
qed

lemma find_comparator_equals: \<open>find_comparator (PStr ''is equal to'') = EQUALS\<close>
  by (simp add: find_comparator_def Comparator_members_def)

lemma build_condition_property:
  \<open>''rule'' \<notin> set (map fst d) \<Longrightarrow>
     build_condition V (PDict d)
       = (let k = find_comparator
                    (case map_of d ''comparator'' of None \<Rightarrow> PStr ''is equal to'' | Some v \<Rightarrow> v)
          in property_comparison_condition V
               (case map_of d ''property'' of None \<Rightarrow> PStr [] | Some v \<Rightarrow> v) k
               (case map_of d ''value'' of None \<Rightarrow> PNone | Some v \<Rightarrow> v)
               (case map_of d ''apply_trim'' of
                  None \<Rightarrow> PBool (k \<notin> {GREATER_THAN, LESS_THAN, GREATER_THAN_OR_EQUAL,
                                       LESS_THAN_OR_EQUAL})
                | Some v \<Rightarrow> v)
               (case map_of d ''is_property'' of None \<Rightarrow> PBool False | Some v \<Rightarrow> v))\<close>
  by (simp add: build_condition_def py_contains_def py_get_def bind_result_def Let_def
      split: option.splits)

lemma property_comparison_condition_comparator:
  \<open>property_comparison_condition V p k v t ip = Inr c \<Longrightarrow> comparator c = Some k\<close>
  by (auto simp add: property_comparison_condition_def bind_result_def as_optional_str_def
      as_bool_def split: option.splits sum.splits)

text \<open>
  C8: for a condition entry without a \<open>rule\<close> key whose \<open>comparator\<close> value equals no
  member's phrase, the search ends without a match and the comparator is \<open>EQUALS\<close>; the
  outcome of building the condition is the outcome for the same entry with the
  comparator \<open>is equal to\<close>; a condition that is built has the comparator \<open>EQUALS\<close>;
  and the only exception possible is the validation error of another field.
\<close>

theorem unknown_comparator_defaults_to_equals:
  assumes \<open>''rule'' \<notin> set (map fst d)\<close>
    and \<open>map_of d ''comparator'' = Some x\<close>
    and \<open>\<forall>k. x \<noteq> PStr (Comparator_value k)\<close>
  shows \<open>find_comparator x = EQUALS
     \<and> build_condition V (PDict d)
         = build_condition V (PDict ((''comparator'', PStr ''is equal to'') # d))
     \<and> (\<forall>c. build_condition V (PDict d) = Inr c \<longrightarrow> comparator c = Some EQUALS)
     \<and> (\<forall>e. build_condition V (PDict d) = Inl e \<longrightarrow> e = ValidationError)\<close>
proof -
  have eq: \<open>find_comparator x = EQUALS\<close>
    by (rule find_comparator_unknown [OF assms(3)])
  have b: \<open>build_condition V (PDict d)
       = property_comparison_condition V
               (case map_of d ''property'' of None \<Rightarrow> PStr [] | Some v \<Rightarrow> v) EQUALS
               (case map_of d ''value'' of None \<Rightarrow> PNone | Some v \<Rightarrow> v)
               (case map_of d ''apply_trim'' of None \<Rightarrow> PBool True | Some v \<Rightarrow> v)
               (case map_of d ''is_property'' of None \<Rightarrow> PBool False | Some v \<Rightarrow> v)\<close>
    using assms(2) eq
    by (simp add: build_condition_property [OF assms(1)] Let_def split: option.splits)
  have r': \<open>''rule'' \<notin> set (map fst ((''comparator'', PStr ''is equal to'') # d))\<close>
    using assms(1) by simp
  have b': \<open>build_condition V (PDict ((''comparator'', PStr ''is equal to'') # d))
       = property_comparison_condition V
               (case map_of d ''property'' of None \<Rightarrow> PStr [] | Some v \<Rightarrow> v) EQUALS
               (case map_of d ''value'' of None \<Rightarrow> PNone | Some v \<Rightarrow> v)
               (case map_of d ''apply_trim'' of None \<Rightarrow> PBool True | Some v \<Rightarrow> v)
               (case map_of d ''is_property'' of None \<Rightarrow> PBool False | Some v \<Rightarrow> v)\<close>
    by (simp add: build_condition_property [OF r'] Let_def find_comparator_equals
        split: option.splits)
  have c: \<open>comparator c = Some EQUALS\<close> if \<open>build_condition V (PDict d) = Inr c\<close> for c
    using that unfolding b by (rule property_comparison_condition_comparator)
  have e: \<open>e = ValidationError\<close> if \<open>build_condition V (PDict d) = Inl e\<close> for e
    using that unfolding b
    by (auto simp add: property_comparison_condition_def bind_result_def as_optional_str_def
      as_bool_def split: option.splits)
  from eq b b' c e show ?thesis by simp
qed

theorem unknown_comparator_defaults_to_equals_witness:
  \<open>''rule'' \<notin> set (map fst loose_entry)
   \<and> map_of loose_entry ''comparator'' = Some (PStr ''equals'')
   \<and> build_condition strict_validation (PDict loose_entry)
       = Inr (Condition_defaults\<lparr>property_reference := Some ''.Status'',
                comparator := Some EQUALS, compare_value := Some ''Pending''\<rparr>)\<close>
proof -
  have r: \<open>''rule'' \<notin> set (map fst loose_entry)\<close>
    and m: \<open>map_of loose_entry ''comparator'' = Some (PStr ''equals'')\<close>
    by (simp_all add: loose_entry_def)
  have u: \<open>\<forall>k. PStr ''equals'' \<noteq> PStr (Comparator_value k)\<close>
  proof
    fix k show \<open>PStr ''equals'' \<noteq> PStr (Comparator_value k)\<close> by (cases k) simp_all
  qed
  from unknown_comparator_defaults_to_equals [OF r m u, of strict_validation]
  have \<open>build_condition strict_validation (PDict loose_entry)
         = build_condition strict_validation
             (PDict ((''comparator'', PStr ''is equal to'') # loose_entry))\<close>
    by blast
  also have \<open>\<dots> = Inr (Condition_defaults\<lparr>property_reference := Some ''.Status'',
                comparator := Some EQUALS, compare_value := Some ''Pending''\<rparr>)\<close>
    by (simp add: loose_entry_def build_condition_def py_contains_def py_get_def
        bind_result_def find_comparator_equals property_comparison_condition_def
        as_optional_str_def as_bool_def strict_validation_def Condition_defaults_def)
  finally show ?thesis using r m by simp
qed

text \<open>
  C1 fails on the code. Text that \<open>json.loads\<close> rejects yields the error dictionary,
  but only \<open>JSONDecodeError\<close> is caught: valid JSON of another shape makes an exception
  leave \<open>create_when_rule\<close>. With \<open>{"groups": 5}\<close> the loop over the groups raises
  \<open>TypeError\<close>; with \<open>[]\<close> the call \<open>conditions_data.get\<close> raises
  \<open>AttributeError\<close>; with \<open>{"groups": ["x"]}\<close> the call \<open>group_data.get\<close> does.
\<close>

theorem create_when_rule_wrong_shape_raises:
  \<open>create_when_rule V n a d (Inl msg) cid
     = Inr (PDict [(''error'', PStr (''Invalid JSON in conditions: '' @ msg))])
   \<and> create_when_rule V n a d (Inr (PDict [(''groups'', PInt 5)])) cid = Inl TypeError
   \<and> create_when_rule V n a d (Inr (PList [])) cid = Inl AttributeError
   \<and> create_when_rule V n a d (Inr (PDict [(''groups'', PList [PStr ''x''])])) cid
       = Inl AttributeError\<close>
  by (simp add: create_when_rule_def py_get_def py_iter_def bind_result_def build_group_def)

text \<open>
  The whole tool call on that entry succeeds, with the renderings of an \<open>EQUALS\<close>
  comparison.
\<close>

lemma create_when_rule_loose_comparator:
  \<open>\<exists>res. create_when_rule strict_validation ''R'' ''A'' ''D''
            (Inr (PDict [(''groups'', PList [PDict [(''conditions'', PList [PDict loose_entry])]])]))
            None = Inr (PDict res)
        \<and> map_of res ''status'' = Some (PStr ''success'')
        \<and> map_of res ''expression''
            = Some (PStr ''@equalsIgnoreCase(@trim(.Status), "Pending")'')
        \<and> map_of res ''expression_simple'' = Some (PStr ''.Status is equal to "Pending"'')\<close>
proof -
  have u: \<open>\<forall>k. PStr ''equals'' \<noteq> PStr (Comparator_value k)\<close>
  proof
    fix k show \<open>PStr ''equals'' \<noteq> PStr (Comparator_value k)\<close> by (cases k) simp_all
  qed
  have f: \<open>find_comparator (PStr ''equals'') = EQUALS\<close>
    by (rule find_comparator_unknown [OF u])
  have c: \<open>build_condition strict_validation (PDict loose_entry)
       = Inr (Condition_defaults\<lparr>property_reference := Some ''.Status'',
                comparator := Some EQUALS, compare_value := Some ''Pending''\<rparr>)\<close>
    by (simp add: loose_entry_def build_condition_def py_contains_def py_get_def
        bind_result_def f property_comparison_condition_def
        as_optional_str_def as_bool_def strict_validation_def Condition_defaults_def)
  have g: \<open>build_group strict_validation (PDict [(''conditions'', PList [PDict loose_entry])])
       = Inr \<lparr>conditions = [Condition_defaults\<lparr>property_reference := Some ''.Status'',
                comparator := Some EQUALS, compare_value := Some ''Pending''\<rparr>],
              operator = AND\<rparr>\<close>
    by (simp add: build_group_def py_get_def py_iter_def bind_result_def c)
  have e1: \<open>condition_to_expr (Condition_defaults\<lparr>property_reference := Some ''.Status'',
                comparator := Some EQUALS, compare_value := Some ''Pending''\<rparr>) True
             = ''@equalsIgnoreCase(@trim(.Status), "Pending")''\<close>
    by (simp add: render_defs)
  have e2: \<open>condition_to_expr (Condition_defaults\<lparr>property_reference := Some ''.Status'',
                comparator := Some EQUALS, compare_value := Some ''Pending''\<rparr>) False
             = ''.Status is equal to "Pending"''\<close>
    by (simp add: render_defs)
  show ?thesis
    by (simp add: create_when_rule_def py_get_def py_iter_def bind_result_def g
        to_expression_eq group_expression_def render_conditions_eq e1 e2 Let_def)
qed

end
